theory Spec2Isabelle
  imports Complex_Main
begin

section \<open>Python values\<close>

text \<open>
  A Python float: a finite value (its rational value; the sign of zero is not kept),
  the two infinities, or not-a-number. \<open>json.loads\<close> accepts \<open>Infinity\<close> and \<open>NaN\<close>,
  so all four can arrive in a decoded body.
\<close>

datatype pyfloat = Finite rat | PosInf | NegInf | NaN

text \<open>\<open>f > 0\<close> on floats; every comparison with NaN is false.\<close>

fun float_gt_zero :: "pyfloat \<Rightarrow> bool" where
  "float_gt_zero (Finite q) = (0 < q)"
| "float_gt_zero PosInf = True"
| "float_gt_zero NegInf = False"
| "float_gt_zero NaN = False"

text \<open>
  What \<open>resp.json()\<close> can return: \<open>None\<close>, \<open>bool\<close>, \<open>int\<close>, \<open>float\<close>, \<open>str\<close>,
  \<open>list\<close> and \<open>dict\<close> (string keys, in insertion order).
\<close>

datatype json =
    JNull
  | JBool bool
  | JInt int
  | JFloat pyfloat
  | JStr string
  | JList "json list"
  | JObj "(string \<times> json) list"

text \<open>Truthiness, as \<open>x or y\<close> and \<open>if x:\<close> test it.\<close>

fun truthy :: "json \<Rightarrow> bool" where
  "truthy JNull = False"
| "truthy (JBool b) = b"
| "truthy (JInt n) = (n \<noteq> 0)"
| "truthy (JFloat f) = (f \<noteq> Finite 0)"
| "truthy (JStr s) = (s \<noteq> [])"
| "truthy (JList xs) = (xs \<noteq> [])"
| "truthy (JObj kvs) = (kvs \<noteq> [])"

definition py_or :: "json \<Rightarrow> json \<Rightarrow> json" where
  "py_or x y = (if truthy x then x else y)"

text \<open>\<open>isinstance(data, list)\<close> and \<open>isinstance(data, dict)\<close>.\<close>

fun is_list :: "json \<Rightarrow> bool" where
  "is_list (JList xs) = True"
| "is_list v = False"

fun is_dict :: "json \<Rightarrow> bool" where
  "is_dict (JObj kvs) = True"
| "is_dict v = False"

section \<open>Exceptions (exceptions.py)\<close>

text \<open>
  One constructor per exception class that can leave the modelled code.
  \<open>HTTPException\<close>, \<open>Forbidden\<close> and \<open>RateLimited\<close> carry the attributes
  \<open>status\<close>, \<open>message\<close>, \<open>response_data\<close> (and \<open>retry_after\<close>, \<open>bucket\<close>);
  \<open>Forbidden\<close> and \<open>RateLimited\<close> are subclasses of \<open>HTTPException\<close>.
  \<open>TypeError\<close> carries its message when the source raises it and \<open>None\<close> when the
  interpreter does; \<open>AttributeError\<close>, \<open>ValueError\<close> and \<open>OverflowError\<close> are only
  raised by the interpreter.
\<close>

datatype error =
    HTTPException int json json
  | Forbidden int json json
  | RateLimited int json json pyfloat json
  | TypeError "string option"
  | RuntimeError string
  | AttributeError
  | ValueError
  | OverflowError

text \<open>\<open>HTTPException.__init__(status, message, response_data=None)\<close>.\<close>

definition HTTPException_init :: "int \<Rightarrow> json \<Rightarrow> json \<Rightarrow> error" where
  "HTTPException_init status message response_data =
     HTTPException status message (py_or response_data (JObj []))"

text \<open>\<open>Forbidden.__init__(message)\<close>: \<open>super().__init__(403, message)\<close>.\<close>

definition Forbidden_init :: "json \<Rightarrow> error" where
  "Forbidden_init message = Forbidden 403 message (py_or JNull (JObj []))"

text \<open>\<open>RateLimited.__init__(message, retry_after, bucket)\<close>.\<close>

definition RateLimited_init :: "json \<Rightarrow> pyfloat \<Rightarrow> json \<Rightarrow> error" where
  "RateLimited_init message retry_after bucket =
     RateLimited 429 message
       (py_or (JObj [(''retry_after'', JFloat retry_after), (''bucket'', bucket)]) (JObj []))
       retry_after bucket"

text \<open>The class tests \<open>isinstance(e, RateLimited)\<close> and \<open>isinstance(e, Forbidden)\<close>.\<close>

fun is_RateLimited :: "error \<Rightarrow> bool" where
  "is_RateLimited (RateLimited s m d r b) = True"
| "is_RateLimited e = False"

fun is_Forbidden :: "error \<Rightarrow> bool" where
  "is_Forbidden (Forbidden s m d) = True"
| "is_Forbidden e = False"

section \<open>Dictionary access\<close>

text \<open>
  \<open>x.get\<close> exists on a \<open>dict\<close> only: on \<open>None\<close>, a number, a string or a list the
  attribute lookup raises \<open>AttributeError\<close>.
\<close>

definition get_attr :: "json \<Rightarrow> error + (string \<times> json) list" where
  "get_attr x = (case x of JObj kvs \<Rightarrow> Inr kvs | _ \<Rightarrow> Inl AttributeError)"

text \<open>\<open>d.get(key, default)\<close> on a dict.\<close>

definition dict_get :: "(string \<times> json) list \<Rightarrow> string \<Rightarrow> json \<Rightarrow> json" where
  "dict_get kvs key dflt = (case map_of kvs key of None \<Rightarrow> dflt | Some v \<Rightarrow> v)"

section \<open>Response records (models.py)\<close>

text \<open>
  The dataclasses. Their annotations are not enforced: every field holds whatever
  \<open>data.get\<close> returned, so every field is a \<open>json\<close> value. Field names carry the class
  name, since several classes share \<open>name\<close>, \<open>player\<close> and \<open>timestamp\<close>.
\<close>

record Server =
  Server_name :: json
  Server_owner_id :: json
  Server_co_owner_ids :: json
  Server_current_players :: json
  Server_max_players :: json
  Server_join_key :: json
  Server_acc_verified_req :: json
  Server_team_balance :: json

definition Server_from_api :: "json \<Rightarrow> error + Server" where
  "Server_from_api data =
     (case get_attr data of
        Inl e \<Rightarrow> Inl e
      | Inr d \<Rightarrow> Inr \<lparr>
          Server_name = dict_get d ''Name'' (JStr ''''),
          Server_owner_id = dict_get d ''OwnerId'' (JInt 0),
          Server_co_owner_ids = dict_get d ''CoOwnerIds'' (JList []),
          Server_current_players = dict_get d ''CurrentPlayers'' (JInt 0),
          Server_max_players = dict_get d ''MaxPlayers'' (JInt 0),
          Server_join_key = dict_get d ''JoinKey'' (JStr ''''),
          Server_acc_verified_req = dict_get d ''AccVerifiedReq'' (JStr ''''),
          Server_team_balance = dict_get d ''TeamBalance'' (JBool False) \<rparr>)"

record Player =
  Player_player :: json
  Player_permission :: json
  Player_callsign :: json
  Player_team :: json

definition Player_from_api :: "json \<Rightarrow> error + Player" where
  "Player_from_api data =
     (case get_attr data of
        Inl e \<Rightarrow> Inl e
      | Inr d \<Rightarrow> Inr \<lparr>
          Player_player = dict_get d ''Player'' (JStr ''''),
          Player_permission = dict_get d ''Permission'' (JStr ''''),
          Player_callsign = dict_get d ''Callsign'' JNull,
          Player_team = dict_get d ''Team'' (JStr '''') \<rparr>)"

record JoinLog =
  JoinLog_join :: json
  JoinLog_timestamp :: json
  JoinLog_player :: json

definition JoinLog_from_api :: "json \<Rightarrow> error + JoinLog" where
  "JoinLog_from_api data =
     (case get_attr data of
        Inl e \<Rightarrow> Inl e
      | Inr d \<Rightarrow> Inr \<lparr>
          JoinLog_join = dict_get d ''Join'' (JBool False),
          JoinLog_timestamp = dict_get d ''Timestamp'' (JInt 0),
          JoinLog_player = dict_get d ''Player'' (JStr '''') \<rparr>)"

record KillLog =
  KillLog_killed :: json
  KillLog_timestamp :: json
  KillLog_killer :: json

definition KillLog_from_api :: "json \<Rightarrow> error + KillLog" where
  "KillLog_from_api data =
     (case get_attr data of
        Inl e \<Rightarrow> Inl e
      | Inr d \<Rightarrow> Inr \<lparr>
          KillLog_killed = dict_get d ''Killed'' (JStr ''''),
          KillLog_timestamp = dict_get d ''Timestamp'' (JInt 0),
          KillLog_killer = dict_get d ''Killer'' (JStr '''') \<rparr>)"

record CommandLog =
  CommandLog_player :: json
  CommandLog_timestamp :: json
  CommandLog_command :: json

definition CommandLog_from_api :: "json \<Rightarrow> error + CommandLog" where
  "CommandLog_from_api data =
     (case get_attr data of
        Inl e \<Rightarrow> Inl e
      | Inr d \<Rightarrow> Inr \<lparr>
          CommandLog_player = dict_get d ''Player'' (JStr ''''),
          CommandLog_timestamp = dict_get d ''Timestamp'' (JInt 0),
          CommandLog_command = dict_get d ''Command'' (JStr '''') \<rparr>)"

record ModCall =
  ModCall_caller :: json
  ModCall_moderator :: json
  ModCall_timestamp :: json

definition ModCall_from_api :: "json \<Rightarrow> error + ModCall" where
  "ModCall_from_api data =
     (case get_attr data of
        Inl e \<Rightarrow> Inl e
      | Inr d \<Rightarrow> Inr \<lparr>
          ModCall_caller = dict_get d ''Caller'' (JStr ''''),
          ModCall_moderator = dict_get d ''Moderator'' JNull,
          ModCall_timestamp = dict_get d ''Timestamp'' (JInt 0) \<rparr>)"

record Vehicle =
  Vehicle_texture :: json
  Vehicle_name :: json
  Vehicle_owner :: json

definition Vehicle_from_api :: "json \<Rightarrow> error + Vehicle" where
  "Vehicle_from_api data =
     (case get_attr data of
        Inl e \<Rightarrow> Inl e
      | Inr d \<Rightarrow> Inr \<lparr>
          Vehicle_texture = dict_get d ''Texture'' JNull,
          Vehicle_name = dict_get d ''Name'' (JStr ''''),
          Vehicle_owner = dict_get d ''Owner'' (JStr '''') \<rparr>)"

record Staff =
  Staff_co_owners :: json
  Staff_admins :: json
  Staff_mods :: json

definition Staff_from_api :: "json \<Rightarrow> error + Staff" where
  "Staff_from_api data =
     (case get_attr data of
        Inl e \<Rightarrow> Inl e
      | Inr d \<Rightarrow> Inr \<lparr>
          Staff_co_owners = dict_get d ''CoOwners'' (JList []),
          Staff_admins = dict_get d ''Admins'' (JObj []),
          Staff_mods = dict_get d ''Mods'' (JObj []) \<rparr>)"


section \<open>Conversion to float\<close>

text \<open>\<open>int.bit_length()\<close> of a non-negative integer.\<close>

fun bit_length :: "nat \<Rightarrow> nat" where
  "bit_length n = (if n = 0 then 0 else Suc (bit_length (n div 2)))"

declare bit_length.simps [simp del]

text \<open>
  The magnitude of \<open>float(n)\<close>: integers below \<open>2 ^ 53\<close> are exact, larger ones are
  rounded to 53 significant bits, ties to even.
\<close>

definition round_to_double :: "nat \<Rightarrow> nat" where
  "round_to_double m =
     (if m < 2 ^ 53 then m
      else let e = bit_length m - 53;
               q = m div 2 ^ e;
               r = m mod 2 ^ e;
               half = 2 ^ (e - 1)
           in (if half < r then q + 1
               else if r = half \<and> odd q then q + 1
               else q) * 2 ^ e)"

text \<open>\<open>float(n)\<close> for an \<open>int\<close>: \<open>OverflowError\<close> when the rounded magnitude is not a double.\<close>

definition float_of_int :: "int \<Rightarrow> error + pyfloat" where
  "float_of_int n =
     (let m = round_to_double (nat \<bar>n\<bar>)
      in if 2 ^ 1024 \<le> m then Inl OverflowError
         else Inr (Finite (if n < 0 then - of_nat m else of_nat m)))"

text \<open>
  \<open>float(x)\<close>. Parsing a string is the interpreter's: \<open>float_of_str s\<close> is the float that
  \<open>float(s)\<close> returns, \<open>None\<close> when it raises \<open>ValueError\<close>.
\<close>

fun py_float :: "(string \<Rightarrow> pyfloat option) \<Rightarrow> json \<Rightarrow> error + pyfloat" where
  "py_float float_of_str JNull = Inl (TypeError None)"
| "py_float float_of_str (JBool b) = Inr (Finite (if b then 1 else 0))"
| "py_float float_of_str (JInt n) = float_of_int n"
| "py_float float_of_str (JFloat f) = Inr f"
| "py_float float_of_str (JStr s) =
     (case float_of_str s of None \<Rightarrow> Inl ValueError | Some f \<Rightarrow> Inr f)"
| "py_float float_of_str (JList xs) = Inl (TypeError None)"
| "py_float float_of_str (JObj kvs) = Inl (TypeError None)"

section \<open>Formatting an integer\<close>

text \<open>\<open>str(n)\<close>, used by \<open>f"HTTP {resp.status}"\<close>.\<close>

fun str_nat :: "nat \<Rightarrow> string" where
  "str_nat n =
     (if n < 10 then [char_of (48 + n)]
      else str_nat (n div 10) @ [char_of (48 + n mod 10)])"

declare str_nat.simps [simp del]

definition str_int :: "int \<Rightarrow> string" where
  "str_int i = (if i < 0 then CHR ''-'' # str_nat (nat (- i)) else str_nat (nat i))"

section \<open>The network, the sessions and the clock\<close>

text \<open>
  What the code reads from an \<open>aiohttp\<close> response: \<open>status\<close>, \<open>reason\<close>,
  \<open>content_type\<close>, \<open>content_length\<close>, \<open>headers.get\<close>, \<open>text()\<close> and \<open>json()\<close>.
  \<open>json_body\<close> is \<open>Some v\<close> when \<open>json()\<close> returns \<open>v\<close> (\<open>JNull\<close> for an empty body) and
  \<open>None\<close> when it raises \<open>ContentTypeError\<close> or \<open>ValueError\<close>, the two exceptions the
  code catches.
\<close>

record response =
  status :: int
  reason :: "string option"
  content_type :: string
  content_length :: "int option"
  json_body :: "json option"
  text_body :: string
  headers :: "string \<Rightarrow> string option"

record ClientSession =
  session_closed :: bool
  session_headers :: "(string \<times> string) list"

text \<open>
  The world outside the client. \<open>server n\<close> is the response to the \<open>n\<close>-th exchange,
  \<open>sent\<close> lists the exchanges made (method, url, json body, headers), \<open>slept\<close> the
  delays passed to \<open>asyncio.sleep\<close>. Session objects live in a store, since a session
  can be shared with the caller that injected it: \<open>sessions a\<close> is the object at
  address \<open>a\<close>, and addresses from \<open>next_session\<close> on are free.
\<close>

record world =
  server :: "nat \<Rightarrow> response"
  sent :: "(string \<times> string \<times> json option \<times> (string \<times> string) list) list"
  slept :: "pyfloat list"
  sessions :: "nat \<Rightarrow> ClientSession"
  next_session :: nat

text \<open>What a coroutine does: return, raise, or never resume.\<close>

datatype 'a result = Returns 'a | Raises error | Never

text \<open>
  \<open>await asyncio.sleep(delay)\<close>: the delay is recorded; an infinite delay never ends
  (\<open>None\<close>).
\<close>

definition sleep :: "pyfloat \<Rightarrow> world \<Rightarrow> world option" where
  "sleep delay w = (if delay = PosInf then None else Some (w\<lparr>slept := slept w @ [delay]\<rparr>))"

section \<open>Route and HTTPClient (http.py)\<close>

definition BASE_URL :: string where
  "BASE_URL = ''https://api.policeroleplay.community/v1''"

record Route =
  route_method :: string
  route_path :: string
  route_url :: string

definition Route_init :: "string \<Rightarrow> string \<Rightarrow> Route" where
  "Route_init m p = \<lparr> route_method = m, route_path = p, route_url = BASE_URL @ p \<rparr>"

text \<open>The attributes \<open>server_key\<close>, \<open>authorization\<close>, \<open>_session\<close>, \<open>_owned_session\<close>.\<close>

record HTTPClient =
  http_server_key :: string
  http_authorization :: "string option"
  http_session :: "nat option"
  http_owned_session :: bool

definition HTTPClient_init :: "string \<Rightarrow> string option \<Rightarrow> nat option \<Rightarrow> HTTPClient" where
  "HTTPClient_init key auth session =
     \<lparr> http_server_key = key, http_authorization = auth,
       http_session = session, http_owned_session = (session = None) \<rparr>"

definition HTTPClient_headers :: "HTTPClient \<Rightarrow> (string \<times> string) list" where
  "HTTPClient_headers h =
     [(''server-key'', http_server_key h), (''Content-Type'', ''application/json'')]
     @ (case http_authorization h of
          None \<Rightarrow> []
        | Some a \<Rightarrow> if a \<noteq> [] then [(''Authorization'', a)] else [])"

text \<open>\<open>aiohttp.ClientSession(headers=self._headers())\<close>, stored in \<open>self._session\<close>.\<close>

definition new_session :: "HTTPClient \<Rightarrow> world \<Rightarrow> nat \<times> HTTPClient \<times> world" where
  "new_session h w =
     (let a = next_session w
      in (a, h\<lparr>http_session := Some a\<rparr>,
          w\<lparr>sessions := (sessions w)
               (a := \<lparr> session_closed = False, session_headers = HTTPClient_headers h \<rparr>),
            next_session := Suc a\<rparr>))"

definition get_session :: "HTTPClient \<Rightarrow> world \<Rightarrow> nat \<times> HTTPClient \<times> world" where
  "get_session h w =
     (case http_session h of
        None \<Rightarrow> new_session h w
      | Some a \<Rightarrow> if session_closed (sessions w a) then new_session h w else (a, h, w))"

text \<open>Lines 105 to 112 of \<open>request\<close>: the decoded body \<open>data\<close>.\<close>

definition decode :: "response \<Rightarrow> json" where
  "decode resp =
     (let data = (if content_type resp = ''application/json''
                  then (case json_body resp of None \<Rightarrow> JNull | Some v \<Rightarrow> v)
                  else JNull)
      in if data = JNull
            \<and> (case content_length resp of None \<Rightarrow> False | Some n \<Rightarrow> n \<noteq> 0)
         then JObj [(''message'', JStr (text_body resp))]
         else data)"

text \<open>\<open>resp.headers.get(name)\<close> as a Python value.\<close>

definition header_value :: "response \<Rightarrow> string \<Rightarrow> json" where
  "header_value resp name = (case headers resp name of None \<Rightarrow> JNull | Some s \<Rightarrow> JStr s)"

text \<open>What one pass through the loop body does: leave \<open>request\<close>, or \<open>continue\<close>.\<close>

datatype step = Done "json result" | Continue

text \<open>Lines 120 to 131: the branch for status 429.\<close>

definition on_rate_limit ::
  "(string \<Rightarrow> pyfloat option) \<Rightarrow> response \<Rightarrow> json \<Rightarrow> nat \<Rightarrow> world \<Rightarrow> step \<times> world" where
  "on_rate_limit float_of_str resp data attempt w =
     (case get_attr (py_or data (JObj [])) of
        Inl e \<Rightarrow> (Done (Raises e), w)
      | Inr body \<Rightarrow>
          (case py_float float_of_str (dict_get body ''retry_after'' (JInt 5)) of
             Inl e \<Rightarrow> (Done (Raises e), w)
           | Inr retry_after \<Rightarrow>
               (let bucket = py_or (dict_get body ''bucket'' JNull)
                                   (header_value resp ''X-RateLimit-Bucket'')
                in if attempt = 0 \<and> float_gt_zero retry_after
                   then (case sleep retry_after w of
                           None \<Rightarrow> (Done Never, w)
                         | Some w' \<Rightarrow> (Continue, w'))
                   else (Done (Raises (RateLimited_init
                                 (dict_get body ''message'' (JStr ''Rate limited''))
                                 retry_after bucket)), w))))"

text \<open>Lines 99 to 134: one exchange and its classification.\<close>

definition attempt_body ::
  "(string \<Rightarrow> pyfloat option) \<Rightarrow> HTTPClient \<Rightarrow> Route \<Rightarrow> json option \<Rightarrow> nat \<Rightarrow> world
     \<Rightarrow> step \<times> world" where
  "attempt_body float_of_str h route js attempt w =
     (let resp = server w (length (sent w));
          w1 = w\<lparr>sent := sent w @ [(route_method route, route_url route, js, HTTPClient_headers h)]\<rparr>;
          data = decode resp
      in if status resp = 200 then (Done (Returns data), w1)
         else if status resp = 403 then
           (case get_attr (py_or data (JObj [])) of
              Inl e \<Rightarrow> (Done (Raises e), w1)
            | Inr body \<Rightarrow>
                (Done (Raises (Forbidden_init (dict_get body ''message'' (JStr ''Unauthorized'')))),
                 w1))
         else if status resp = 429 then on_rate_limit float_of_str resp data attempt w1
         else
           (case get_attr (py_or data (JObj [])) of
              Inl e \<Rightarrow> (Done (Raises e), w1)
            | Inr body \<Rightarrow>
                (Done (Raises (HTTPException_init (status resp)
                   (dict_get body ''message''
                      (case reason resp of
                         None \<Rightarrow> JStr (''HTTP '' @ str_int (status resp))
                       | Some s \<Rightarrow> if s \<noteq> [] then JStr s
                                   else JStr (''HTTP '' @ str_int (status resp))))
                   data)), w1)))"

text \<open>
  The loop \<open>for attempt in range(2)\<close> over the attempts still to make, and line 136
  after it.
\<close>

fun request_attempts ::
  "(string \<Rightarrow> pyfloat option) \<Rightarrow> HTTPClient \<Rightarrow> Route \<Rightarrow> json option \<Rightarrow> nat list \<Rightarrow> world
     \<Rightarrow> json result \<times> world" where
  "request_attempts float_of_str h route js [] w =
     (Raises (HTTPException_init 429 (JStr ''Rate limited'') JNull), w)"
| "request_attempts float_of_str h route js (attempt # rest) w =
     (case attempt_body float_of_str h route js attempt w of
        (Done r, w') \<Rightarrow> (r, w')
      | (Continue, w') \<Rightarrow> request_attempts float_of_str h route js rest w')"

definition request ::
  "(string \<Rightarrow> pyfloat option) \<Rightarrow> HTTPClient \<Rightarrow> Route \<Rightarrow> json option \<Rightarrow> world
     \<Rightarrow> json result \<times> HTTPClient \<times> world" where
  "request float_of_str h route js w =
     (case get_session h w of
        (a, h', w') \<Rightarrow>
          (case request_attempts float_of_str h' route js [0, 1] w' of
             (r, w'') \<Rightarrow> (r, h', w'')))"

text \<open>\<open>HTTPClient.close\<close>.\<close>

definition HTTPClient_close :: "HTTPClient \<Rightarrow> world \<Rightarrow> world" where
  "HTTPClient_close h w =
     (case http_session h of
        None \<Rightarrow> w
      | Some a \<Rightarrow>
          if http_owned_session h \<and> \<not> session_closed (sessions w a)
          then w\<lparr>sessions := (sessions w)(a := (sessions w a)\<lparr>session_closed := True\<rparr>)\<rparr>
          else w)"

section \<open>Client (client.py)\<close>

text \<open>
  An object passed to \<open>Client.event\<close>. \<open>is_coroutine_function\<close> is what
  \<open>asyncio.iscoroutinefunction\<close> answers for it and \<open>handler_name\<close> its \<open>__name__\<close>
  (\<open>None\<close> when the object has no such attribute, as a \<open>functools.partial\<close>);
  \<open>handler_id\<close> tells two objects apart.
\<close>

record handler =
  handler_id :: nat
  handler_name :: "string option"
  is_coroutine_function :: bool

text \<open>
  The attributes \<open>server_key\<close>, \<open>authorization\<close>, \<open>_http\<close>, \<open>_on_ready\<close>, \<open>_events\<close>
  and \<open>_closed\<close>. The client is the only holder of its \<open>HTTPClient\<close>, which is
  therefore kept by value.
\<close>

record Client =
  server_key :: "string option"
  authorization :: "string option"
  http :: "HTTPClient option"
  on_ready :: "handler option"
  events :: "string \<Rightarrow> handler option"
  is_closed :: bool

definition Client_init :: "string option \<Rightarrow> string option \<Rightarrow> Client" where
  "Client_init key auth =
     \<lparr> server_key = key, authorization = auth, http = None, on_ready = None,
       events = (\<lambda>name. None), is_closed = False \<rparr>"

text \<open>
  \<open>Client.event\<close>; it returns the handler it was given. \<open>__init__\<close> always sets
  \<open>_events\<close>, so \<open>hasattr(self, "_events")\<close> holds.
\<close>

definition event :: "Client \<Rightarrow> handler \<Rightarrow> error + handler \<times> Client" where
  "event c coro =
     (if \<not> is_coroutine_function coro
      then Inl (TypeError (Some ''Event handler must be a coroutine function''))
      else case handler_name coro of
             None \<Rightarrow> Inl AttributeError
           | Some name \<Rightarrow>
               if name = ''on_ready'' then Inr (coro, c\<lparr>on_ready := Some coro\<rparr>)
               else Inr (coro, c\<lparr>events := (events c)(name := Some coro)\<rparr>))"

text \<open>\<open>Client._ensure_http\<close>; \<open>not self.server_key\<close> holds for \<open>None\<close> and for \<open>""\<close>.\<close>

definition ensure_http :: "Client \<Rightarrow> error + HTTPClient \<times> Client" where
  "ensure_http c =
     (case http c of
        Some h \<Rightarrow> Inr (h, c)
      | None \<Rightarrow>
          (case server_key c of
             None \<Rightarrow> Inl (RuntimeError ''Server API has not been set.'')
           | Some key \<Rightarrow>
               if key = [] then Inl (RuntimeError ''Server API has not been set.'')
               else (let h = HTTPClient_init key (authorization c) None
                     in Inr (h, c\<lparr>http := Some h\<rparr>))))"

text \<open>\<open>Client.close\<close>.\<close>

definition Client_close :: "Client \<Rightarrow> world \<Rightarrow> Client \<times> world" where
  "Client_close c w =
     (if is_closed c then (c, w)
      else case http c of
             None \<Rightarrow> (c\<lparr>is_closed := True\<rparr>, w)
           | Some h \<Rightarrow> (c\<lparr>http := None, is_closed := True\<rparr>, HTTPClient_close h w))"

text \<open>
  \<open>await self._ensure_http().request(route, json=js)\<close>, the first statement of every
  API method. The \<open>HTTPClient\<close> that \<open>request\<close> updated is the one the client holds.
\<close>

definition api_call ::
  "(string \<Rightarrow> pyfloat option) \<Rightarrow> Client \<Rightarrow> Route \<Rightarrow> json option \<Rightarrow> world
     \<Rightarrow> json result \<times> Client \<times> world" where
  "api_call float_of_str c route js w =
     (case ensure_http c of
        Inl e \<Rightarrow> (Raises e, c, w)
      | Inr (h, c1) \<Rightarrow>
          (case request float_of_str h route js w of
             (r, h', w') \<Rightarrow> (r, c1\<lparr>http := Some h'\<rparr>, w')))"

text \<open>What an API method does with the payload once \<open>request\<close> has returned it.\<close>

definition map_payload ::
  "(json \<Rightarrow> error + 'a) \<Rightarrow> json result \<times> Client \<times> world \<Rightarrow> 'a result \<times> Client \<times> world" where
  "map_payload f x =
     (case x of
        (Returns data, c, w) \<Rightarrow>
          (case f data of Inl e \<Rightarrow> (Raises e, c, w) | Inr v \<Rightarrow> (Returns v, c, w))
      | (Raises e, c, w) \<Rightarrow> (Raises e, c, w)
      | (Never, c, w) \<Rightarrow> (Never, c, w))"

text \<open>The comprehension \<open>[X.from_api(e) for e in data]\<close>: the first failure ends it.\<close>

fun from_api_list :: "(json \<Rightarrow> error + 'a) \<Rightarrow> json list \<Rightarrow> error + 'a list" where
  "from_api_list f [] = Inr []"
| "from_api_list f (x # xs) =
     (case f x of
        Inl e \<Rightarrow> Inl e
      | Inr v \<Rightarrow> (case from_api_list f xs of Inl e \<Rightarrow> Inl e | Inr vs \<Rightarrow> Inr (v # vs)))"

text \<open>
  \<open>if isinstance(data, list): return [X.from_api(e) for e in data]\<close> and \<open>return []\<close>.
\<close>

definition list_payload :: "(json \<Rightarrow> error + 'a) \<Rightarrow> json \<Rightarrow> error + 'a list" where
  "list_payload f data = (case data of JList xs \<Rightarrow> from_api_list f xs | _ \<Rightarrow> Inr [])"

definition get_server ::
  "(string \<Rightarrow> pyfloat option) \<Rightarrow> Client \<Rightarrow> world \<Rightarrow> Server result \<times> Client \<times> world" where
  "get_server float_of_str c w =
     map_payload Server_from_api
       (api_call float_of_str c (Route_init ''GET'' ''/server'') None w)"

definition get_players ::
  "(string \<Rightarrow> pyfloat option) \<Rightarrow> Client \<Rightarrow> world \<Rightarrow> Player list result \<times> Client \<times> world" where
  "get_players float_of_str c w =
     map_payload (list_payload Player_from_api)
       (api_call float_of_str c (Route_init ''GET'' ''/server/players'') None w)"

definition run_command ::
  "(string \<Rightarrow> pyfloat option) \<Rightarrow> Client \<Rightarrow> string \<Rightarrow> world \<Rightarrow> json result \<times> Client \<times> world" where
  "run_command float_of_str c command w =
     map_payload (\<lambda>data. Inr (py_or data (JObj [])))
       (api_call float_of_str c (Route_init ''POST'' ''/server/command'')
          (Some (JObj [(''command'', JStr command)])) w)"

definition get_joinlogs ::
  "(string \<Rightarrow> pyfloat option) \<Rightarrow> Client \<Rightarrow> world \<Rightarrow> JoinLog list result \<times> Client \<times> world" where
  "get_joinlogs float_of_str c w =
     map_payload (list_payload JoinLog_from_api)
       (api_call float_of_str c (Route_init ''GET'' ''/server/joinlogs'') None w)"

definition get_queue ::
  "(string \<Rightarrow> pyfloat option) \<Rightarrow> Client \<Rightarrow> world \<Rightarrow> json result \<times> Client \<times> world" where
  "get_queue float_of_str c w =
     map_payload (\<lambda>data. Inr (if is_list data then data else JList []))
       (api_call float_of_str c (Route_init ''GET'' ''/server/queue'') None w)"

definition get_killlogs ::
  "(string \<Rightarrow> pyfloat option) \<Rightarrow> Client \<Rightarrow> world \<Rightarrow> KillLog list result \<times> Client \<times> world" where
  "get_killlogs float_of_str c w =
     map_payload (list_payload KillLog_from_api)
       (api_call float_of_str c (Route_init ''GET'' ''/server/killlogs'') None w)"

definition get_commandlogs ::
  "(string \<Rightarrow> pyfloat option) \<Rightarrow> Client \<Rightarrow> world
     \<Rightarrow> CommandLog list result \<times> Client \<times> world" where
  "get_commandlogs float_of_str c w =
     map_payload (list_payload CommandLog_from_api)
       (api_call float_of_str c (Route_init ''GET'' ''/server/commandlogs'') None w)"

definition get_modcalls ::
  "(string \<Rightarrow> pyfloat option) \<Rightarrow> Client \<Rightarrow> world \<Rightarrow> ModCall list result \<times> Client \<times> world" where
  "get_modcalls float_of_str c w =
     map_payload (list_payload ModCall_from_api)
       (api_call float_of_str c (Route_init ''GET'' ''/server/modcalls'') None w)"

definition get_bans ::
  "(string \<Rightarrow> pyfloat option) \<Rightarrow> Client \<Rightarrow> world \<Rightarrow> json result \<times> Client \<times> world" where
  "get_bans float_of_str c w =
     map_payload (\<lambda>data. Inr (if is_dict data then data else JObj []))
       (api_call float_of_str c (Route_init ''GET'' ''/server/bans'') None w)"

definition get_vehicles ::
  "(string \<Rightarrow> pyfloat option) \<Rightarrow> Client \<Rightarrow> world \<Rightarrow> Vehicle list result \<times> Client \<times> world" where
  "get_vehicles float_of_str c w =
     map_payload (list_payload Vehicle_from_api)
       (api_call float_of_str c (Route_init ''GET'' ''/server/vehicles'') None w)"

definition get_staff ::
  "(string \<Rightarrow> pyfloat option) \<Rightarrow> Client \<Rightarrow> world \<Rightarrow> Staff result \<times> Client \<times> world" where
  "get_staff float_of_str c w =
     map_payload (\<lambda>data. Staff_from_api (py_or data (JObj [])))
       (api_call float_of_str c (Route_init ''GET'' ''/server/staff'') None w)"

text \<open>
  The methods of \<open>Client\<close> other than \<open>run\<close> and \<open>_start\<close>, which hand control to the
  caller's coroutine, and the state each leaves behind (unchanged where \<open>event\<close> or
  \<open>_ensure_http\<close> raise).
\<close>

datatype operation =
    Event handler
  | Ensure_http
  | Close
  | Get_server
  | Get_players
  | Run_command string
  | Get_joinlogs
  | Get_queue
  | Get_killlogs
  | Get_commandlogs
  | Get_modcalls
  | Get_bans
  | Get_vehicles
  | Get_staff

fun state_after ::
  "(string \<Rightarrow> pyfloat option) \<Rightarrow> Client \<times> world \<Rightarrow> operation \<Rightarrow> Client \<times> world" where
  "state_after sf (c, w) (Event coro) =
     (case event c coro of Inl e \<Rightarrow> (c, w) | Inr (f, c') \<Rightarrow> (c', w))"
| "state_after sf (c, w) Ensure_http =
     (case ensure_http c of Inl e \<Rightarrow> (c, w) | Inr (h, c') \<Rightarrow> (c', w))"
| "state_after sf (c, w) Close = Client_close c w"
| "state_after sf (c, w) Get_server = snd (get_server sf c w)"
| "state_after sf (c, w) Get_players = snd (get_players sf c w)"
| "state_after sf (c, w) (Run_command command) = snd (run_command sf c command w)"
| "state_after sf (c, w) Get_joinlogs = snd (get_joinlogs sf c w)"
| "state_after sf (c, w) Get_queue = snd (get_queue sf c w)"
| "state_after sf (c, w) Get_killlogs = snd (get_killlogs sf c w)"
| "state_after sf (c, w) Get_commandlogs = snd (get_commandlogs sf c w)"
| "state_after sf (c, w) Get_modcalls = snd (get_modcalls sf c w)"
| "state_after sf (c, w) Get_bans = snd (get_bans sf c w)"
| "state_after sf (c, w) Get_vehicles = snd (get_vehicles sf c w)"
| "state_after sf (c, w) Get_staff = snd (get_staff sf c w)"

text \<open>The state after a sequence of calls, one after the other.\<close>

definition state_after_all ::
  "(string \<Rightarrow> pyfloat option) \<Rightarrow> operation list \<Rightarrow> Client \<times> world \<Rightarrow> Client \<times> world" where
  "state_after_all sf ops s = foldl (state_after sf) s ops"

section \<open>Example inputs\<close>

text \<open>A response that declares JSON and whose \<open>json()\<close> returns \<open>v\<close>.\<close>

definition json_response :: "int \<Rightarrow> json \<Rightarrow> response" where
  "json_response st v =
     \<lparr> status = st, reason = None, content_type = ''application/json'',
       content_length = None, json_body = Some v, text_body = [],
       headers = (\<lambda>name. None) \<rparr>"


text \<open>A world in which nothing has happened yet and no session has been allocated.\<close>

definition fresh_world :: "(nat \<Rightarrow> response) \<Rightarrow> world" where
  "fresh_world srv =
     \<lparr> server = srv, sent = [], slept = [],
       sessions = (\<lambda>a. \<lparr> session_closed = True, session_headers = [] \<rparr>),
       next_session = 0 \<rparr>"

text \<open>A server that always answers \<open>r\<close>, and one that answers \<open>r1\<close> first and \<open>r2\<close> afterwards.\<close>

definition always :: "response \<Rightarrow> nat \<Rightarrow> response" where
  "always r n = r"

definition first_then :: "response \<Rightarrow> response \<Rightarrow> nat \<Rightarrow> response" where
  "first_then r1 r2 n = (if n = 0 then r1 else r2)"

text \<open>\<open>float(s)\<close> on the strings of the examples: none of them is a number.\<close>

definition no_float :: "string \<Rightarrow> pyfloat option" where
  "no_float s = None"

text \<open>The outcome is a raised \<open>RateLimited\<close>.\<close>

definition raises_RateLimited :: "'a result \<Rightarrow> bool" where
  "raises_RateLimited r = (case r of Raises e \<Rightarrow> is_RateLimited e | _ \<Rightarrow> False)"

text \<open>
  A world in which address 0 holds a session that its owner has already closed, and
  an \<open>HTTPClient\<close> into which that session was injected.
\<close>

definition closed_session_world :: "(nat \<Rightarrow> response) \<Rightarrow> world" where
  "closed_session_world srv = (fresh_world srv)\<lparr>next_session := 1\<rparr>"

definition injected_client :: HTTPClient where
  "injected_client = HTTPClient_init ''ABC'' None (Some 0)"

text \<open>One request through that client.\<close>

definition injected_run :: "json result \<times> HTTPClient \<times> world" where
  "injected_run =
     request no_float injected_client (Route_init ''GET'' ''/server'') None
       (closed_session_world (always (json_response 200 (JObj []))))"

text \<open>Handlers: two coroutine functions and a plain function.\<close>

definition ready_handler :: handler where
  "ready_handler = \<lparr> handler_id = 0, handler_name = Some ''on_ready'', is_coroutine_function = True \<rparr>"

definition join_handler :: handler where
  "join_handler = \<lparr> handler_id = 1, handler_name = Some ''on_join'', is_coroutine_function = True \<rparr>"

definition plain_function :: handler where
  "plain_function = \<lparr> handler_id = 2, handler_name = Some ''on_ready'', is_coroutine_function = False \<rparr>"

text \<open>The API methods among the operations.\<close>

fun is_api_method :: "operation \<Rightarrow> bool" where
  "is_api_method (Event coro) = False"
| "is_api_method Ensure_http = False"
| "is_api_method Close = False"
| "is_api_method op = True"

text \<open>A client with a key, closed before it was ever used, and the world it is left in.\<close>

definition closed_client :: "Client \<times> world" where
  "closed_client =
     Client_close (Client_init (Some ''ABC'') None)
       (fresh_world (always (json_response 200 (JObj [(''Name'', JStr ''Town'')]))))"

section \<open>The request loop, step by step\<close>

lemma get_session_world:
  "get_session h w = (a, h', w') \<Longrightarrow> server w' = server w \<and> sent w' = sent w \<and> slept w' = slept w"
  by (auto simp: get_session_def new_session_def Let_def split: option.splits if_splits)

lemma request_first_done:
  "get_session h w = (a, h', w1) \<Longrightarrow> attempt_body sf h' route js 0 w1 = (Done r, w2)
   \<Longrightarrow> request sf h route js w = (r, h', w2)"
  by (simp add: request_def)

lemma request_second_done:
  "get_session h w = (a, h', w1) \<Longrightarrow> attempt_body sf h' route js 0 w1 = (Continue, w2)
   \<Longrightarrow> attempt_body sf h' route js 1 w2 = (Done r, w3)
   \<Longrightarrow> request sf h route js w = (r, h', w3)"
  by (simp add: request_def)

lemma on_rate_limit_world:
  "on_rate_limit sf resp data k w = (s, w') \<Longrightarrow> sent w' = sent w \<and> server w' = server w"
  by (auto simp: on_rate_limit_def sleep_def Let_def split: sum.splits if_splits option.splits)

lemma attempt_body_world:
  "attempt_body sf h route js k w = (s, w')
   \<Longrightarrow> length (sent w') = Suc (length (sent w)) \<and> server w' = server w"
  by (auto simp: attempt_body_def Let_def split: sum.splits if_splits dest!: on_rate_limit_world)


lemma on_rate_limit_later:
  "k \<noteq> 0 \<Longrightarrow> \<exists>r. on_rate_limit sf resp data k w = (Done r, w) \<and> r \<noteq> Never"
  by (auto simp: on_rate_limit_def Let_def split: sum.splits)

lemma attempt_body_later:
  assumes "k \<noteq> 0"
  shows "\<exists>r w'. attempt_body sf h route js k w = (Done r, w') \<and> r \<noteq> Never \<and> slept w' = slept w"
proof (cases "status (server w (length (sent w))) = 429")
  case True
  let ?w1 = "w\<lparr>sent := sent w @ [(route_method route, route_url route, js, HTTPClient_headers h)]\<rparr>"
  from on_rate_limit_later [OF assms]
  obtain r where "on_rate_limit sf (server w (length (sent w)))
      (decode (server w (length (sent w)))) k ?w1 = (Done r, ?w1)" and "r \<noteq> Never"
    by blast
  with True show ?thesis
    by (simp add: attempt_body_def Let_def)
next
  case False
  then show ?thesis
    by (auto simp: attempt_body_def Let_def split: sum.splits)
qed



section \<open>The client, step by step\<close>

lemma request_sends:
  assumes "request sf h route js w = (r, h', w')"
  shows "length (sent w) < length (sent w')"
proof -
  obtain a h1 w1 where g: "get_session h w = (a, h1, w1)"
    by (cases "get_session h w") auto
  note gw = get_session_world [OF g]
  obtain s1 w2 where a1: "attempt_body sf h1 route js 0 w1 = (s1, w2)"
    by (cases "attempt_body sf h1 route js 0 w1") auto
  note n1 = attempt_body_world [OF a1]
  show ?thesis
  proof (cases s1)
    case (Done r1)
    with request_first_done [OF g] a1 assms n1 gw show ?thesis by simp
  next
    case Continue
    from attempt_body_later [of 1 sf h1 route js w2]
    obtain r2 w3 where a2: "attempt_body sf h1 route js 1 w2 = (Done r2, w3)" by auto
    from request_second_done [OF g _ a2] a1 Continue assms attempt_body_world [OF a2] n1 gw
    show ?thesis by simp
  qed
qed

lemma map_payload_state: "snd (map_payload f x) = snd x"
  by (cases x) (auto simp: map_payload_def split: result.splits sum.splits)

lemma ensure_http_state:
  "ensure_http c = Inr (h, c') \<Longrightarrow> is_closed c' = is_closed c \<and> server_key c' = server_key c
     \<and> authorization c' = authorization c"
  by (auto simp: ensure_http_def Let_def split: option.splits if_splits)

lemma api_call_is_closed: "is_closed (fst (snd (api_call sf c route js w))) = is_closed c"
  by (auto simp: api_call_def split: sum.splits prod.splits dest: ensure_http_state)

lemma event_is_closed: "event c coro = Inr (f, c') \<Longrightarrow> is_closed c' = is_closed c"
  by (auto simp: event_def split: if_splits option.splits)

lemma Client_close_is_closed: "is_closed (fst (Client_close c w))"
  by (simp add: Client_close_def split: option.splits)

lemma state_after_is_closed:
  "is_closed c \<Longrightarrow> is_closed (fst (state_after sf (c, w) op))"
  by (cases op)
     (auto simp: Client_close_is_closed map_payload_state api_call_is_closed
        get_server_def get_players_def run_command_def get_joinlogs_def get_queue_def
        get_killlogs_def get_commandlogs_def get_modcalls_def get_bans_def get_vehicles_def
        get_staff_def
        split: sum.splits dest: event_is_closed ensure_http_state)

lemma state_after_all_is_closed:
  "is_closed (fst s) \<Longrightarrow> is_closed (fst (state_after_all sf ops s))"
  unfolding state_after_all_def
proof (induction ops arbitrary: s)
  case Nil
  then show ?case by simp
next
  case (Cons op ops)
  obtain c w where s: "s = (c, w)" by (cases s)
  with Cons.prems have "is_closed (fst (state_after sf s op))"
    by (simp add: state_after_is_closed)
  from Cons.IH [OF this] show ?case by simp
qed

lemma api_call_sends:
  assumes "ensure_http c = Inr (h, c1)" and "api_call sf c route js w = (r, c', w')"
  shows "length (sent w) < length (sent w')"
proof -
  obtain r1 h1 w1 where q: "request sf h route js w = (r1, h1, w1)"
    by (cases "request sf h route js w") auto
  with assms have "w' = w1" by (simp add: api_call_def)
  with request_sends [OF q] show ?thesis by simp
qed

lemma api_method_sends:
  assumes "ensure_http c = Inr (h, c1)" and "is_api_method op"
  shows "length (sent w) < length (sent (snd (state_after sf (c, w) op)))"
proof -
  have *: "length (sent w) < length (sent (snd (snd (map_payload f (api_call sf c route js w)))))"
    for f :: "json \<Rightarrow> error + 'a" and route js
    using api_call_sends [OF assms(1), of sf route js w]
    by (cases "api_call sf c route js w") (simp add: map_payload_state)
  from assms(2) show ?thesis
    by (cases op)
       (simp_all add: * get_server_def get_players_def run_command_def get_joinlogs_def
          get_queue_def get_killlogs_def get_commandlogs_def get_modcalls_def get_bans_def
          get_vehicles_def get_staff_def)
qed
section \<open>Defaults of the mappers\<close>

text \<open>
  C6. Every mapper, given the empty mapping \<open>{}\<close>, returns (does not raise) the record
  holding the default of each field: for \<open>Server\<close> the name \<open>""\<close>, owner id \<open>0\<close>,
  co-owner ids \<open>[]\<close>, current and maximal players \<open>0\<close>, join key \<open>""\<close>, verification
  requirement \<open>""\<close> and team balance \<open>False\<close>; for \<open>Player\<close> the callsign \<open>None\<close> and
  \<open>""\<close> for the three string fields; and likewise for the six other record kinds.
\<close>

theorem from_api_empty_defaults:
  "Server_from_api (JObj []) = Inr \<lparr>
      Server_name = JStr '''', Server_owner_id = JInt 0, Server_co_owner_ids = JList [],
      Server_current_players = JInt 0, Server_max_players = JInt 0,
      Server_join_key = JStr '''', Server_acc_verified_req = JStr '''',
      Server_team_balance = JBool False \<rparr>
   \<and> Player_from_api (JObj []) = Inr \<lparr>
      Player_player = JStr '''', Player_permission = JStr '''',
      Player_callsign = JNull, Player_team = JStr '''' \<rparr>
   \<and> JoinLog_from_api (JObj []) = Inr \<lparr>
      JoinLog_join = JBool False, JoinLog_timestamp = JInt 0, JoinLog_player = JStr '''' \<rparr>
   \<and> KillLog_from_api (JObj []) = Inr \<lparr>
      KillLog_killed = JStr '''', KillLog_timestamp = JInt 0, KillLog_killer = JStr '''' \<rparr>
   \<and> CommandLog_from_api (JObj []) = Inr \<lparr>
      CommandLog_player = JStr '''', CommandLog_timestamp = JInt 0,
      CommandLog_command = JStr '''' \<rparr>
   \<and> ModCall_from_api (JObj []) = Inr \<lparr>
      ModCall_caller = JStr '''', ModCall_moderator = JNull, ModCall_timestamp = JInt 0 \<rparr>
   \<and> Vehicle_from_api (JObj []) = Inr \<lparr>
      Vehicle_texture = JNull, Vehicle_name = JStr '''', Vehicle_owner = JStr '''' \<rparr>
   \<and> Staff_from_api (JObj []) = Inr \<lparr>
      Staff_co_owners = JList [], Staff_admins = JObj [], Staff_mods = JObj [] \<rparr>"
  by (simp add: Server_from_api_def Player_from_api_def JoinLog_from_api_def
      KillLog_from_api_def CommandLog_from_api_def ModCall_from_api_def
      Vehicle_from_api_def Staff_from_api_def get_attr_def dict_get_def)

section \<open>A successful response\<close>



section \<open>Status 403\<close>




section \<open>Status 429 with a zero delay\<close>

text \<open>
  C1, as amended. When the response to the first attempt has status 429 and its
  \<open>retry_after\<close> is 0, \<open>request\<close> neither sleeps nor makes a second attempt: it raises
  \<open>RateLimited\<close> after exactly one exchange, carrying the delay 0 and the bucket of that
  response. The test \<open>attempt == 0 and retry_after > 0\<close> guards the sleep and the retry
  together.
\<close>

theorem request_429_zero_retry_after:
  assumes "status (server w (length (sent w))) = 429"
    and "get_attr (py_or (decode (server w (length (sent w)))) (JObj [])) = Inr body"
    and "py_float sf (dict_get body ''retry_after'' (JInt 5)) = Inr (Finite 0)"
  shows "\<exists>h' w'. request sf h route js w =
            (Raises (RateLimited_init (dict_get body ''message'' (JStr ''Rate limited''))
                       (Finite 0)
                       (py_or (dict_get body ''bucket'' JNull)
                          (header_value (server w (length (sent w))) ''X-RateLimit-Bucket''))),
             h', w')
          \<and> length (sent w') = Suc (length (sent w)) \<and> slept w' = slept w"
proof -
  obtain a h' w1 where g: "get_session h w = (a, h', w1)"
    by (cases "get_session h w") auto
  note gw = get_session_world [OF g]
  let ?w2 = "w1\<lparr>sent := sent w1 @ [(route_method route, route_url route, js, HTTPClient_headers h')]\<rparr>"
  from assms gw have "attempt_body sf h' route js 0 w1 =
      (Done (Raises (RateLimited_init (dict_get body ''message'' (JStr ''Rate limited''))
                       (Finite 0)
                       (py_or (dict_get body ''bucket'' JNull)
                          (header_value (server w (length (sent w))) ''X-RateLimit-Bucket'')))),
       ?w2)"
    by (simp add: attempt_body_def on_rate_limit_def Let_def)
  from request_first_done [OF g this] gw show ?thesis
    by simp
qed

text \<open>
  The theorem at a server that answers 429 with \<open>{"retry_after": 0}\<close> and would answer
  200 to a second attempt.
\<close>

theorem request_429_zero_retry_after_witness:
  "\<exists>h' w'. request no_float (HTTPClient_init ''ABC'' None None) (Route_init ''GET'' ''/server'') None
       (fresh_world (first_then (json_response 429 (JObj [(''retry_after'', JInt 0)]))
                                (json_response 200 (JObj []))))
     = (Raises (RateLimited 429 (JStr ''Rate limited'')
                  (JObj [(''retry_after'', JFloat (Finite 0)), (''bucket'', JNull)])
                  (Finite 0) JNull), h', w')
     \<and> length (sent w') = Suc 0 \<and> slept w' = []"
  using request_429_zero_retry_after [of
      "fresh_world (first_then (json_response 429 (JObj [(''retry_after'', JInt 0)]))
                               (json_response 200 (JObj [])))"
      "[(''retry_after'', JInt 0)]" no_float "HTTPClient_init ''ABC'' None None"
      "Route_init ''GET'' ''/server''" None]
  by (simp add: fresh_world_def json_response_def first_then_def decode_def py_or_def
      get_attr_def dict_get_def float_of_int_def round_to_double_def header_value_def
      RateLimited_init_def)

text \<open>
  C1 as first stated does not hold at the same server: the call ends in \<open>RateLimited\<close> with one
  exchange made.
\<close>

theorem request_429_zero_retries_counterexample:
  "raises_RateLimited
     (fst (request no_float (HTTPClient_init ''ABC'' None None) (Route_init ''GET'' ''/server'')
             None
             (fresh_world (first_then (json_response 429 (JObj [(''retry_after'', JInt 0)]))
                                      (json_response 200 (JObj []))))))
   \<and> length (sent (snd (snd
        (request no_float (HTTPClient_init ''ABC'' None None) (Route_init ''GET'' ''/server'')
           None
           (fresh_world (first_then (json_response 429 (JObj [(''retry_after'', JInt 0)]))
                                    (json_response 200 (JObj [])))))))) = 1"
  by (simp add: request_def get_session_def new_session_def HTTPClient_init_def
      fresh_world_def first_then_def json_response_def attempt_body_def on_rate_limit_def
      decode_def py_or_def get_attr_def dict_get_def float_of_int_def round_to_double_def
      header_value_def RateLimited_init_def raises_RateLimited_def Let_def)

section \<open>The statement after the loop\<close>



section \<open>Status 429 with a positive delay\<close>



section \<open>Registering a handler\<close>

text \<open>
  C9. \<open>Client.event\<close> raises \<open>TypeError\<close> exactly when the handler is not a coroutine
  function, and then the client is left as it was. A coroutine function named
  \<open>on_ready\<close> becomes the \<open>_on_ready\<close> callback; a coroutine function with any other
  name is stored in \<open>_events\<close> under its name.
\<close>

theorem event_registration:
  "((\<exists>msg. event c coro = Inl (TypeError msg)) \<longleftrightarrow> \<not> is_coroutine_function coro)
   \<and> (is_coroutine_function coro \<and> handler_name coro = Some ''on_ready''
        \<longrightarrow> event c coro = Inr (coro, c\<lparr>on_ready := Some coro\<rparr>))
   \<and> (is_coroutine_function coro \<and> handler_name coro = Some name \<and> name \<noteq> ''on_ready''
        \<longrightarrow> event c coro = Inr (coro, c\<lparr>events := (events c)(name := Some coro)\<rparr>))"
  by (auto simp: event_def split: option.splits)

text \<open>
  The theorem at a handler named \<open>on_ready\<close>, at one named \<open>on_join\<close> and at a plain
  function.
\<close>

theorem event_registration_witness:
  "event (Client_init None None) ready_handler
     = Inr (ready_handler, (Client_init None None)\<lparr>on_ready := Some ready_handler\<rparr>)
   \<and> event (Client_init None None) join_handler
     = Inr (join_handler, (Client_init None None)
              \<lparr>events := (events (Client_init None None))(''on_join'' := Some join_handler)\<rparr>)
   \<and> (\<exists>msg. event (Client_init None None) plain_function = Inl (TypeError msg))"
  using event_registration [of "Client_init None None" ready_handler]
    event_registration [of "Client_init None None" join_handler "''on_join''"]
    event_registration [of "Client_init None None" plain_function]
  by (simp add: ready_handler_def join_handler_def plain_function_def)

section \<open>A closed client\<close>

text \<open>
  C10. Let \<open>close\<close> run on a client that holds a non-empty server key and was not
  closed before. Afterwards \<open>_closed\<close> is true and \<open>_http\<close> is \<open>None\<close>, and \<open>_closed\<close>
  stays true under every sequence of \<open>event\<close>, \<open>_ensure_http\<close>, \<open>close\<close> and the eleven
  API methods. Yet \<open>_ensure_http\<close> does not raise: it builds a fresh \<open>HTTPClient\<close> from
  the key, every API call is the \<open>request\<close> of that fresh transport, and every API
  method makes at least one exchange with the server.
\<close>

theorem closed_client_still_serves:
  assumes "server_key c = Some key" and "key \<noteq> []" and "\<not> is_closed c"
    and "Client_close c w = (c', w')"
  shows "is_closed c' \<and> http c' = None
   \<and> is_closed (fst (state_after_all sf ops (c', w')))
   \<and> ensure_http c' = Inr (HTTPClient_init key (authorization c) None,
                             c'\<lparr>http := Some (HTTPClient_init key (authorization c) None)\<rparr>)
   \<and> api_call sf c' route js w' =
        (case request sf (HTTPClient_init key (authorization c) None) route js w' of
           (r, h1, w1) \<Rightarrow> (r, c'\<lparr>http := Some h1\<rparr>, w1))
   \<and> (is_api_method op \<longrightarrow> length (sent w') < length (sent (snd (state_after sf (c', w') op))))"
proof -
  from assms(3,4) have cl: "is_closed c'" and ht: "http c' = None"
    and k: "server_key c' = server_key c" and au: "authorization c' = authorization c"
    by (auto simp: Client_close_def split: option.splits)
  from state_after_all_is_closed [of "(c', w')" sf ops] cl
  have inv: "is_closed (fst (state_after_all sf ops (c', w')))" by simp
  from ht k au assms(1,2)
  have en: "ensure_http c' = Inr (HTTPClient_init key (authorization c) None,
                             c'\<lparr>http := Some (HTTPClient_init key (authorization c) None)\<rparr>)"
    by (simp add: ensure_http_def Let_def)
  then have ap: "api_call sf c' route js w' =
        (case request sf (HTTPClient_init key (authorization c) None) route js w' of
           (r, h1, w1) \<Rightarrow> (r, c'\<lparr>http := Some h1\<rparr>, w1))"
    by (simp add: api_call_def split: prod.splits)
  from api_method_sends [OF en]
  have "is_api_method op \<longrightarrow> length (sent w') < length (sent (snd (state_after sf (c', w') op)))"
    by blast
  with cl ht inv en ap show ?thesis by blast
qed

text \<open>
  The theorem at a client closed before its first use: \<open>get_server\<close> then returns the
  record of the server's answer.
\<close>

theorem closed_client_still_serves_witness:
  "is_closed (fst closed_client) \<and> http (fst closed_client) = None
   \<and> is_closed (fst (state_after_all no_float [Get_server, Close, Get_players] closed_client))
   \<and> length (sent (snd closed_client))
       < length (sent (snd (state_after no_float closed_client Get_server)))
   \<and> fst (get_server no_float (fst closed_client) (snd closed_client))
       = Returns \<lparr>
           Server_name = JStr ''Town'', Server_owner_id = JInt 0, Server_co_owner_ids = JList [],
           Server_current_players = JInt 0, Server_max_players = JInt 0,
           Server_join_key = JStr '''', Server_acc_verified_req = JStr '''',
           Server_team_balance = JBool False \<rparr>"
proof -
  have c: "Client_close (Client_init (Some ''ABC'') None)
             (fresh_world (always (json_response 200 (JObj [(''Name'', JStr ''Town'')]))))
           = (fst closed_client, snd closed_client)"
    by (simp add: closed_client_def)
  have k: "server_key (Client_init (Some ''ABC'') None) = Some ''ABC''"
    and n: "''ABC'' \<noteq> []" and o: "\<not> is_closed (Client_init (Some ''ABC'') None)"
    by (simp_all add: Client_init_def)
  note t = closed_client_still_serves [OF k n o c,
      where op = Get_server and sf = no_float and ops = "[Get_server, Close, Get_players]"
        and route = "Route_init ''GET'' ''/server''" and js = None]
  have "fst (request no_float (HTTPClient_init ''ABC'' None None) (Route_init ''GET'' ''/server'')
               None (snd closed_client))
        = Returns (JObj [(''Name'', JStr ''Town'')])"
    by (simp add: closed_client_def Client_close_def Client_init_def request_def
        get_session_def new_session_def HTTPClient_init_def fresh_world_def always_def
        json_response_def attempt_body_def decode_def Let_def)
  then obtain h1 w1 where r:
    "request no_float (HTTPClient_init ''ABC'' None None) (Route_init ''GET'' ''/server'')
       None (snd closed_client) = (Returns (JObj [(''Name'', JStr ''Town'')]), h1, w1)"
    by (cases "request no_float (HTTPClient_init ''ABC'' None None)
                 (Route_init ''GET'' ''/server'') None (snd closed_client)") auto
  have a: "authorization (Client_init (Some ''ABC'') None) = None"
    by (simp add: Client_init_def)
  from t have "api_call no_float (fst closed_client) (Route_init ''GET'' ''/server'') None
                 (snd closed_client)
               = (Returns (JObj [(''Name'', JStr ''Town'')]),
                  (fst closed_client)\<lparr>http := Some h1\<rparr>, w1)"
    by (simp add: a r)
  then have "fst (get_server no_float (fst closed_client) (snd closed_client))
       = Returns \<lparr>
           Server_name = JStr ''Town'', Server_owner_id = JInt 0, Server_co_owner_ids = JList [],
           Server_current_players = JInt 0, Server_max_players = JInt 0,
           Server_join_key = JStr '''', Server_acc_verified_req = JStr '''',
           Server_team_balance = JBool False \<rparr>"
    by (simp add: get_server_def map_payload_def Server_from_api_def get_attr_def dict_get_def)
  with t show ?thesis by simp
qed

section \<open>Payloads of the wrong shape\<close>

text \<open>
  On the seven list-shaped endpoints a payload that is not a list gives the empty
  list, and on \<open>get_bans\<close> a payload that is not a mapping gives the empty mapping.
  \<open>get_staff\<close> gives the record of defaults for a falsy payload only.
\<close>

lemma non_list_payload:
  "\<not> is_list data \<Longrightarrow> list_payload f data = Inr []"
  by (cases data) (simp_all add: list_payload_def)

lemma list_endpoint_non_list_payload:
  "\<not> is_list data \<Longrightarrow>
     map_payload (list_payload f) (Returns data, c, w) = (Returns [], c, w)"
  by (simp add: map_payload_def non_list_payload)

lemma non_list_payload_gives_empty:
  assumes "\<not> is_list data"
  shows "api_call sf c (Route_init ''GET'' ''/server/players'') None w = (Returns data, c', w')
           \<Longrightarrow> get_players sf c w = (Returns [], c', w')"
    and "api_call sf c (Route_init ''GET'' ''/server/joinlogs'') None w = (Returns data, c', w')
           \<Longrightarrow> get_joinlogs sf c w = (Returns [], c', w')"
    and "api_call sf c (Route_init ''GET'' ''/server/queue'') None w = (Returns data, c', w')
           \<Longrightarrow> get_queue sf c w = (Returns (JList []), c', w')"
    and "api_call sf c (Route_init ''GET'' ''/server/killlogs'') None w = (Returns data, c', w')
           \<Longrightarrow> get_killlogs sf c w = (Returns [], c', w')"
    and "api_call sf c (Route_init ''GET'' ''/server/commandlogs'') None w = (Returns data, c', w')
           \<Longrightarrow> get_commandlogs sf c w = (Returns [], c', w')"
    and "api_call sf c (Route_init ''GET'' ''/server/modcalls'') None w = (Returns data, c', w')
           \<Longrightarrow> get_modcalls sf c w = (Returns [], c', w')"
    and "api_call sf c (Route_init ''GET'' ''/server/vehicles'') None w = (Returns data, c', w')
           \<Longrightarrow> get_vehicles sf c w = (Returns [], c', w')"
  using assms
  by (simp_all add: get_players_def get_joinlogs_def get_queue_def get_killlogs_def
      get_commandlogs_def get_modcalls_def get_vehicles_def list_endpoint_non_list_payload)
     (simp add: map_payload_def)

lemma non_dict_payload_gives_empty:
  assumes "\<not> is_dict data"
    and "api_call sf c (Route_init ''GET'' ''/server/bans'') None w = (Returns data, c', w')"
  shows "get_bans sf c w = (Returns (JObj []), c', w')"
  using assms by (simp add: get_bans_def map_payload_def)

lemma falsy_payload_gives_default_staff:
  assumes "\<not> truthy data"
    and "api_call sf c (Route_init ''GET'' ''/server/staff'') None w = (Returns data, c', w')"
  shows "get_staff sf c w =
           (Returns \<lparr> Staff_co_owners = JList [], Staff_admins = JObj [], Staff_mods = JObj [] \<rparr>,
            c', w')"
  using assms
  by (simp add: get_staff_def map_payload_def py_or_def Staff_from_api_def get_attr_def
      dict_get_def)

text \<open>
  C4. \<open>get_staff\<close> does not map every payload that is not a mapping to the record of
  defaults: it guards the payload with \<open>data or {}\<close> where
  \<open>get_bans\<close> tests \<open>isinstance(data, dict)\<close>. When the server answers 200 with the
  JSON list \<open>[1]\<close>, \<open>get_staff\<close> raises \<open>AttributeError\<close>, while \<open>get_bans\<close> returns the
  empty mapping for the same answer.
\<close>

theorem get_staff_list_payload_raises:
  "fst (get_staff no_float (Client_init (Some ''ABC'') None)
          (fresh_world (always (json_response 200 (JList [JInt 1])))))
     = Raises AttributeError
   \<and> fst (get_bans no_float (Client_init (Some ''ABC'') None)
          (fresh_world (always (json_response 200 (JList [JInt 1])))))
     = Returns (JObj [])"
  by (simp add: get_staff_def get_bans_def map_payload_def api_call_def ensure_http_def
      Client_init_def request_def get_session_def new_session_def HTTPClient_init_def
      fresh_world_def always_def json_response_def attempt_body_def decode_def py_or_def
      Staff_from_api_def get_attr_def Let_def)

section \<open>Closing the transport\<close>

text \<open>
  \<open>HTTPClient.close\<close> closes the held session when no session was injected at
  construction, leaves an injected session alone, and changes nothing when called again;
  \<open>Client.close\<close> changes nothing when called again.
\<close>

lemma HTTPClient_close_owned:
  "http_owned_session h \<Longrightarrow> http_session h = Some a
   \<Longrightarrow> session_closed (sessions (HTTPClient_close h w) a)"
  by (simp add: HTTPClient_close_def)

lemma HTTPClient_close_injected:
  "\<not> http_owned_session h \<Longrightarrow> HTTPClient_close h w = w"
  by (simp add: HTTPClient_close_def split: option.splits)

lemma HTTPClient_close_idempotent:
  "HTTPClient_close h (HTTPClient_close h w) = HTTPClient_close h w"
  by (simp add: HTTPClient_close_def split: option.splits)

lemma Client_close_idempotent:
  "Client_close (fst (Client_close c w)) (snd (Client_close c w)) = Client_close c w"
  by (simp add: Client_close_def split: option.splits)

text \<open>
  C7. \<open>HTTPClient.close\<close> does not release a session that the transport created to
  replace an injected one: \<open>_owned_session\<close> is set in \<open>__init__\<close> only. Here the injected session at
  address 0 is already closed; the request creates the session at address 1, and
  \<open>close\<close> leaves that session open.
\<close>

theorem close_leaks_recreated_session:
  "http_session (fst (snd injected_run)) = Some 1
   \<and> \<not> session_closed (sessions (snd (snd injected_run)) 1)
   \<and> \<not> session_closed
        (sessions (HTTPClient_close (fst (snd injected_run)) (snd (snd injected_run))) 1)"
  by (simp add: injected_run_def injected_client_def closed_session_world_def request_def
      get_session_def new_session_def HTTPClient_init_def HTTPClient_close_def
      fresh_world_def always_def json_response_def attempt_body_def decode_def Let_def)

end
